theory Spec2Isabelle
  imports Main "HOL-Library.Char_ord" "HOL-Library.List_Lexorder"
begin

section \<open>Exceptions\<close>

text \<open>
  The exception classes of \<^verbatim>\<open>sssh.py\<close> (\<^verbatim>\<open>DuplicateNodeNameError\<close>,
  \<^verbatim>\<open>NodeDoesNotExistError\<close>, \<^verbatim>\<open>InvalidPathError\<close>) and the builtin exceptions its
  statements raise (\<^verbatim>\<open>KeyError\<close> from the metadata dict and the callback set,
  \<^verbatim>\<open>AttributeError\<close> when \<^verbatim>\<open>get_child\<close> or \<^verbatim>\<open>children\<close> is asked of a
  \<^verbatim>\<open>LeafNode\<close>, \<^verbatim>\<open>ValueError\<close> when \<^verbatim>\<open>root, *parts = path.parts\<close> unpacks an
  empty tuple, \<^verbatim>\<open>IndexError\<close> from \<^verbatim>\<open>del parts[i]\<close>). The message an exception
  carries is not modelled, only its class.
\<close>

datatype error =
    DuplicateNodeNameError
  | NodeDoesNotExistError
  | InvalidPathError
  | KeyError
  | AttributeError
  | ValueError
  | IndexError

section \<open>The part of pathlib the program uses\<close>

text \<open>
  A \<^verbatim>\<open>pathlib.PurePosixPath\<close> is its root (\<^verbatim>\<open>''''\<close>, \<^verbatim>\<open>/\<close> or \<^verbatim>\<open>//\<close>) and the list of
  its components. Parsing a string splits it at \<^verbatim>\<open>/\<close> and drops the empty components and
  the components \<^verbatim>\<open>.\<close>; a component \<^verbatim>\<open>..\<close> is kept.
\<close>

datatype path = Path (anchor: string) (comps: "string list")

fun split_sep :: "string \<Rightarrow> string list" where
  "split_sep [] = [[]]"
| "split_sep (c # cs) =
     (if c = CHR ''/'' then [] # split_sep cs
      else (case split_sep cs of [] \<Rightarrow> [[c]] | w # ws \<Rightarrow> (c # w) # ws))"

definition splitroot :: "string \<Rightarrow> string \<times> string" where
  "splitroot p =
     (if take 1 p \<noteq> ''/'' then ('''', p)
      else if take 1 (drop 1 p) \<noteq> ''/'' \<or> take 1 (drop 2 p) = ''/'' then (''/'', drop 1 p)
      else (take 2 p, drop 2 p))"

definition parse_path :: "string \<Rightarrow> path" where
  "parse_path s =
     (case splitroot s of (r, rel) \<Rightarrow>
        Path r (filter (\<lambda>x. x \<noteq> [] \<and> x \<noteq> ''.'') (split_sep rel)))"

definition path_parts :: "path \<Rightarrow> string list" where
  "path_parts p = (if anchor p = [] then comps p else anchor p # comps p)"

definition path_name :: "path \<Rightarrow> string" where
  "path_name p = (if comps p = [] then [] else last (comps p))"

definition path_parent :: "path \<Rightarrow> path" where
  "path_parent p = (if comps p = [] then p else Path (anchor p) (butlast (comps p)))"

fun join_sep :: "string list \<Rightarrow> string" where
  "join_sep [] = []"
| "join_sep [x] = x"
| "join_sep (x # y # ys) = x @ ''/'' @ join_sep (y # ys)"

definition path_str :: "path \<Rightarrow> string" where
  "path_str p = (if anchor p = [] \<and> comps p = [] then ''.'' else anchor p @ join_sep (comps p))"

text \<open>\<^verbatim>\<open>p / q\<close>: an absolute right operand replaces the left one.\<close>

definition joinpath :: "path \<Rightarrow> path \<Rightarrow> path" where
  "joinpath p q = (if anchor q \<noteq> [] then q else Path (anchor p) (comps p @ comps q))"

text \<open>\<^verbatim>\<open>s / q\<close> with a string on the left, as in \<^verbatim>\<open>self.name / path\<close>.\<close>

definition rtruediv :: "string \<Rightarrow> path \<Rightarrow> path" where
  "rtruediv s q = joinpath (parse_path s) q"

section \<open>Collapsing of dot components in resolve_path\<close>

text \<open>
  \<^verbatim>\<open>del xs[i]\<close> with Python's indexing: a negative index counts from the end, an index
  out of range raises \<^verbatim>\<open>IndexError\<close>.
\<close>

definition delete_at :: "nat \<Rightarrow> 'a list \<Rightarrow> 'a list" where
  "delete_at k xs = take k xs @ drop (Suc k) xs"

definition py_del :: "'a list \<Rightarrow> int \<Rightarrow> error + 'a list" where
  "py_del xs i =
     (if i < - int (length xs) \<or> int (length xs) \<le> i then Inl IndexError
      else if i < 0 then Inr (delete_at (nat (int (length xs) + i)) xs)
      else Inr (delete_at (nat i) xs))"

text \<open>
  The loop \<^verbatim>\<open>for idx, part in enumerate(parts)\<close> of \<^verbatim>\<open>resolve_path\<close>, which deletes
  from \<^verbatim>\<open>parts\<close> while it iterates over it: the list iterator reads \<^verbatim>\<open>parts[idx]\<close> as
  long as \<^verbatim>\<open>idx < len(parts)\<close>, whatever has been deleted meanwhile.
\<close>

function collapse :: "nat \<Rightarrow> string list \<Rightarrow> error + string list" where
  "collapse idx parts =
     (if idx < length parts then
        (if parts ! idx = ''.'' then
           (case py_del parts (int idx) of
              Inl e \<Rightarrow> Inl e
            | Inr ps \<Rightarrow> collapse (Suc idx) ps)
         else if parts ! idx = ''..'' then
           (case py_del parts (int idx) of
              Inl e \<Rightarrow> Inl e
            | Inr ps \<Rightarrow>
                if ps \<noteq> [] then
                  (case py_del ps (int idx - 1) of
                     Inl e \<Rightarrow> Inl e
                   | Inr ps' \<Rightarrow> collapse (Suc idx) ps')
                else collapse (Suc idx) ps)
         else collapse (Suc idx) parts)
      else Inr parts)"
  by pat_completeness auto
termination
  by (relation "measure (\<lambda>(idx, parts). length parts - idx)")
     (auto simp: py_del_def delete_at_def split: if_splits)

declare collapse.simps [simp del]

section \<open>Nodes and the object store\<close>

text \<open>
  Nodes are mutable objects that refer to each other (a child to its parent, a parent's
  \<^verbatim>\<open>NodeSet\<close> to its members), and an exception leaves behind whatever was mutated
  before it was raised. So objects live in a store indexed by their identity, every
  mutating operation returns the store it leaves behind together with its result, and the
  result is \<open>Inl\<close> of the exception raised or \<open>Inr\<close> of the value returned.

  \<^verbatim>\<open>Node\<close> and \<^verbatim>\<open>LeafNode\<close> are the two shapes of \<open>body\<close>. A \<^verbatim>\<open>NodeSet\<close> keeps its
  members in a Python \<^verbatim>\<open>set\<close> (hashed by identity); the model keeps them in a list
  without repetition whose order stands for the iteration order of the set. Python leaves
  that order open; here a new member goes to the end. The same holds for the set of
  callbacks of a leaf. A callback is an opaque handle: calling it is recorded in the
  trace \<open>calls\<close> with the path it receives.
\<close>

type_synonym nid = nat
type_synonym callback = nat

datatype pyobj = PyNone | PyInt int | PyStr string

datatype body =
    Dir "nid list"
  | Leaf pyobj "callback list"

record node =
  name :: string
  parent :: "nid option"
  meta :: "pyobj \<rightharpoonup> pyobj"
  body :: body

type_synonym heap = "nid \<Rightarrow> node"

definition is_Node :: "node \<Rightarrow> bool" where
  "is_Node n = (case body n of Dir _ \<Rightarrow> True | Leaf _ _ \<Rightarrow> False)"

definition is_LeafNode :: "node \<Rightarrow> bool" where
  "is_LeafNode n = (case body n of Dir _ \<Rightarrow> False | Leaf _ _ \<Rightarrow> True)"

text \<open>The members of a node's \<^verbatim>\<open>NodeSet\<close>; a leaf has none.\<close>

definition kids :: "heap \<Rightarrow> nid \<Rightarrow> nid list" where
  "kids h p = (case body (h p) of Dir ms \<Rightarrow> ms | Leaf _ _ \<Rightarrow> [])"

subsection \<open>NodeSet\<close>

text \<open>\<^verbatim>\<open>NodeSet.__contains__\<close>: membership is by name, also for a node.\<close>

definition nodeset_contains :: "heap \<Rightarrow> nid list \<Rightarrow> string \<Rightarrow> bool" where
  "nodeset_contains h ms nm = list_ex (\<lambda>m. name (h m) = nm) ms"

text \<open>
  \<^verbatim>\<open>p.children.add(n)\<close>, \<^verbatim>\<open>p.children.get(nm)\<close> and \<^verbatim>\<open>p.children.remove(nm)\<close>. The
  attribute \<^verbatim>\<open>children\<close> exists on a \<^verbatim>\<open>Node\<close> only.
\<close>

definition children_add :: "heap \<Rightarrow> nid \<Rightarrow> nid \<Rightarrow> (error + unit) \<times> heap" where
  "children_add h p n =
     (case body (h p) of
        Leaf _ _ \<Rightarrow> (Inl AttributeError, h)
      | Dir ms \<Rightarrow>
          if nodeset_contains h ms (name (h n)) then (Inl DuplicateNodeNameError, h)
          else (Inr (), h(p := (h p)\<lparr>body := Dir (ms @ [n])\<rparr>)))"

definition children_get :: "heap \<Rightarrow> nid \<Rightarrow> string \<Rightarrow> error + nid" where
  "children_get h p nm =
     (case body (h p) of
        Leaf _ _ \<Rightarrow> Inl AttributeError
      | Dir ms \<Rightarrow>
          (case find (\<lambda>m. name (h m) = nm) ms of
             None \<Rightarrow> Inl NodeDoesNotExistError
           | Some m \<Rightarrow> Inr m))"

definition children_remove :: "heap \<Rightarrow> nid \<Rightarrow> string \<Rightarrow> (error + nid) \<times> heap" where
  "children_remove h p nm =
     (case body (h p) of
        Leaf _ _ \<Rightarrow> (Inl AttributeError, h)
      | Dir ms \<Rightarrow>
          (case find (\<lambda>m. name (h m) = nm) ms of
             None \<Rightarrow> (Inl NodeDoesNotExistError, h)
           | Some m \<Rightarrow> (Inr m, h(p := (h p)\<lparr>body := Dir (remove1 m ms)\<rparr>))))"

subsection \<open>AbstractNode\<close>

text \<open>
  \<^verbatim>\<open>set_parent\<close>: remove the node from the old parent's set under its current name, add
  it to the new parent's set, then assign \<^verbatim>\<open>_parent\<close>. Nothing is undone when a step
  raises.
\<close>

definition set_parent :: "heap \<Rightarrow> nid \<Rightarrow> nid option \<Rightarrow> (error + unit) \<times> heap" where
  "set_parent h n p =
     (case (case parent (h n) of
              None \<Rightarrow> (Inr n, h)
            | Some old_parent \<Rightarrow> children_remove h old_parent (name (h n))) of
        (Inl e, h1) \<Rightarrow> (Inl e, h1)
      | (Inr _, h1) \<Rightarrow>
          (case (case p of
                   None \<Rightarrow> (Inr (), h1)
                 | Some new_parent \<Rightarrow> children_add h1 new_parent n) of
             (Inl e, h2) \<Rightarrow> (Inl e, h2)
           | (Inr _, h2) \<Rightarrow> (Inr (), h2(n := (h2 n)\<lparr>parent := p\<rparr>))))"

text \<open>
  \<^verbatim>\<open>get_path\<close>: the loop \<^verbatim>\<open>while self.parent\<close> climbs until a node without parent; in
  a store where the parent references form a cycle it does not return, which is the
  value \<open>None\<close> here.
\<close>

partial_function (option) get_path_loop :: "heap \<Rightarrow> nid \<Rightarrow> path \<Rightarrow> path option" where
  "get_path_loop h n p =
     (case parent (h n) of
        None \<Rightarrow> Some p
      | Some q \<Rightarrow> get_path_loop h q (rtruediv (name (h q)) p))"

declare get_path_loop.simps [code]

definition get_path :: "heap \<Rightarrow> nid \<Rightarrow> path option" where
  "get_path h n = get_path_loop h n (parse_path (name (h n)))"

text \<open>
  The constructors \<^verbatim>\<open>Node(name, parent)\<close> and \<^verbatim>\<open>LeafNode(name, parent)\<close>: the new
  object gets the next free identity, has no \<^verbatim>\<open>_parent\<close> yet (\<^verbatim>\<open>getattr\<close> falls back to
  \<^verbatim>\<open>None\<close>) and registers itself with \<^verbatim>\<open>set_parent\<close>. When that raises, the object
  stays in the store but nothing refers to it.
\<close>

definition new_node :: "heap \<Rightarrow> nid \<Rightarrow> string \<Rightarrow> nid option \<Rightarrow> body \<Rightarrow> (error + nid) \<times> heap" where
  "new_node h fr nm p b =
     (case set_parent (h(fr := \<lparr>name = nm, parent = None, meta = Map.empty, body = b\<rparr>)) fr p of
        (Inl e, h1) \<Rightarrow> (Inl e, h1)
      | (Inr _, h1) \<Rightarrow> (Inr fr, h1))"

subsection \<open>Node\<close>

definition get_child :: "heap \<Rightarrow> nid \<Rightarrow> string \<Rightarrow> error + nid" where
  "get_child h n nm = children_get h n nm"

definition remove_child :: "heap \<Rightarrow> nid \<Rightarrow> string \<Rightarrow> (error + nid) \<times> heap" where
  "remove_child h p nm =
     (case children_get h p nm of
        Inl e \<Rightarrow> (Inl e, h)
      | Inr child \<Rightarrow>
          (case set_parent h child None of
             (Inl e, h1) \<Rightarrow> (Inl e, h1)
           | (Inr _, h1) \<Rightarrow> (Inr child, h1)))"

section \<open>Filesystem\<close>

text \<open>\<^verbatim>\<open>except c: raise r\<close> applied to the exception \<open>e\<close> that reaches the clause.\<close>

definition except_raise :: "error \<Rightarrow> error \<Rightarrow> error \<Rightarrow> error" where
  "except_raise c r e = (if e = c then r else e)"

text \<open>The loop \<^verbatim>\<open>for part in parts: node = node.get_child(part)\<close>.\<close>

fun walk :: "heap \<Rightarrow> nid \<Rightarrow> string list \<Rightarrow> error + nid" where
  "walk h n [] = Inr n"
| "walk h n (part # ps) =
     (case get_child h n part of
        Inl e \<Rightarrow> Inl e
      | Inr c \<Rightarrow> walk h c ps)"

definition get_node :: "heap \<Rightarrow> nid \<Rightarrow> path \<Rightarrow> error + nid" where
  "get_node h r p =
     (case path_parts p of
        [] \<Rightarrow> Inl ValueError
      | rt # ps \<Rightarrow>
          if rt = name (h r) then walk h r ps
          else (case get_child h r rt of
                  Inl e \<Rightarrow> Inl e
                | Inr n \<Rightarrow> walk h n ps))"

text \<open>
  \<^verbatim>\<open>move_node\<close> up to its last statement: the checks of the two names, the lookup of the
  source and of the target, the renaming of the source when only the target's parent
  exists, and the test that the target is a \<^verbatim>\<open>Node\<close>. It returns the source and the
  target; the source is renamed in the store while it is still in its old parent's set.
\<close>

definition move_node_resolve :: "heap \<Rightarrow> nid \<Rightarrow> path \<Rightarrow> path \<Rightarrow> (error + nid \<times> nid) \<times> heap" where
  "move_node_resolve h r source_path target_path =
     (if path_name source_path = [] then (Inl InvalidPathError, h)
      else if path_name target_path = [] then (Inl InvalidPathError, h)
      else
        (case get_node h r source_path of
           Inl e \<Rightarrow> (Inl (except_raise NodeDoesNotExistError InvalidPathError e), h)
         | Inr source \<Rightarrow>
             (case (case get_node h r target_path of
                      Inr target \<Rightarrow> (Inr target, h)
                    | Inl e \<Rightarrow>
                        if e = NodeDoesNotExistError then
                          (case get_node h r (path_parent target_path) of
                             Inl e' \<Rightarrow>
                               (Inl (except_raise NodeDoesNotExistError InvalidPathError e'), h)
                           | Inr target \<Rightarrow>
                               (Inr target,
                                h(source := (h source)\<lparr>name := path_name target_path\<rparr>)))
                        else (Inl e, h)) of
                (Inl e, h1) \<Rightarrow> (Inl e, h1)
              | (Inr target, h1) \<Rightarrow>
                  if \<not> is_Node (h1 target) then (Inl InvalidPathError, h1)
                  else (Inr (source, target), h1))))"

text \<open>\<^verbatim>\<open>move_node\<close>: the above, then \<^verbatim>\<open>source.set_parent(target)\<close>.\<close>

definition move_node :: "heap \<Rightarrow> nid \<Rightarrow> path \<Rightarrow> path \<Rightarrow> (error + unit) \<times> heap" where
  "move_node h r source_path target_path =
     (case move_node_resolve h r source_path target_path of
        (Inl e, h1) \<Rightarrow> (Inl e, h1)
      | (Inr (source, target), h1) \<Rightarrow> set_parent h1 source (Some target))"

section \<open>StupidlySimpleShell\<close>

text \<open>
  The state of a shell: the store with the objects of its filesystem, the next free
  object identity, the root node of the filesystem, the current working directory, and
  the trace of the callbacks called so far. Every operation returns \<open>None\<close> when it
  does not return (because \<^verbatim>\<open>get_path\<close> does not), and otherwise the exception or the
  value together with the state it leaves.
\<close>

record shell =
  store :: heap
  fresh :: nid
  root :: nid
  cwd :: nid
  calls :: "(callback \<times> path) list"

definition init_shell :: shell where
  "init_shell =
     \<lparr>store = (\<lambda>_. \<lparr>name = [], parent = None, meta = Map.empty, body = Dir []\<rparr>)
                (0 := \<lparr>name = ''/'', parent = None, meta = Map.empty, body = Dir []\<rparr>),
      fresh = 1, root = 0, cwd = 0, calls = []\<rparr>"

definition pwd :: "shell \<Rightarrow> path option" where
  "pwd sh = get_path (store sh) (cwd sh)"

text \<open>
  \<^verbatim>\<open>resolve_path\<close>. Its argument is already a path here: a string argument is converted
  by \<^verbatim>\<open>pathlib.Path(path)\<close>, which is \<open>parse_path\<close>.
\<close>

definition resolve_path :: "shell \<Rightarrow> path \<Rightarrow> (error + path) option" where
  "resolve_path sh p =
     (case (case path_parts p of
              [] \<Rightarrow> if path_str p \<noteq> ''.'' then Inl InvalidPathError else Inr (''.'', [])
            | rt # ps \<Rightarrow> Inr (rt, ps)) of
        Inl e \<Rightarrow> Some (Inl e)
      | Inr (rt, ps) \<Rightarrow>
          (case (if rt \<noteq> name (store sh (root sh)) then
                   (case pwd sh of
                      None \<Rightarrow> None
                    | Some w \<Rightarrow>
                        (case path_parts (joinpath w p) of
                           [] \<Rightarrow> Some (Inl ValueError)
                         | rt' # ps' \<Rightarrow> Some (Inr (joinpath w p, rt', ps'))))
                 else Some (Inr (p, rt, ps))) of
             None \<Rightarrow> None
           | Some (Inl e) \<Rightarrow> Some (Inl e)
           | Some (Inr (p1, rt1, ps1)) \<Rightarrow>
               if ''.'' \<in> set ps1 \<or> ''..'' \<in> set ps1 then
                 (case collapse 0 ps1 of
                    Inl e \<Rightarrow> Some (Inl e)
                  | Inr ps2 \<Rightarrow>
                      Some (Inr (foldl (\<lambda>q part. joinpath q (parse_path part))
                                   (parse_path rt1) ps2)))
               else Some (Inr p1)))"

text \<open>The decorator \<^verbatim>\<open>resolved_path\<close>, for one path and for two.\<close>

definition resolved_path ::
  "shell \<Rightarrow> path \<Rightarrow> (path \<Rightarrow> ((error + 'a) \<times> shell) option) \<Rightarrow> ((error + 'a) \<times> shell) option" where
  "resolved_path sh p f =
     (case resolve_path sh p of
        None \<Rightarrow> None
      | Some (Inl e) \<Rightarrow> Some (Inl e, sh)
      | Some (Inr q) \<Rightarrow> f q)"

definition resolved_paths ::
  "shell \<Rightarrow> path \<Rightarrow> path \<Rightarrow> (path \<Rightarrow> path \<Rightarrow> ((error + 'a) \<times> shell) option)
     \<Rightarrow> ((error + 'a) \<times> shell) option" where
  "resolved_paths sh p1 p2 f =
     resolved_path sh p1 (\<lambda>q1. resolved_path sh p2 (\<lambda>q2. f q1 q2))"

definition cd :: "shell \<Rightarrow> path \<Rightarrow> ((error + unit) \<times> shell) option" where
  "cd sh p = resolved_path sh p (\<lambda>q. Some
     (case get_node (store sh) (root sh) q of
        Inl e \<Rightarrow> (Inl (except_raise NodeDoesNotExistError InvalidPathError e), sh)
      | Inr n \<Rightarrow>
          if \<not> is_Node (store sh n) then (Inl InvalidPathError, sh)
          else (Inr (), sh\<lparr>cwd := n\<rparr>)))"

text \<open>The loop of \<^verbatim>\<open>mkdir\<close> with \<^verbatim>\<open>parents=True\<close>.\<close>

fun mkdir_loop :: "heap \<Rightarrow> nid \<Rightarrow> nid \<Rightarrow> string list \<Rightarrow> (error + unit) \<times> heap \<times> nid" where
  "mkdir_loop h fr n [] = (Inr (), h, fr)"
| "mkdir_loop h fr n (part # ps) =
     (case (case get_child h n part of
              Inr c \<Rightarrow> (Inr c, h, fr)
            | Inl e \<Rightarrow>
                if e = NodeDoesNotExistError then
                  (case new_node h fr part (Some n) (Dir []) of (r, h1) \<Rightarrow> (r, h1, Suc fr))
                else (Inl e, h, fr)) of
        (Inl e, h1, fr1) \<Rightarrow> (Inl e, h1, fr1)
      | (Inr c, h1, fr1) \<Rightarrow>
          if \<not> is_Node (h1 c) then (Inl InvalidPathError, h1, fr1)
          else mkdir_loop h1 fr1 c ps)"

definition mkdir :: "shell \<Rightarrow> path \<Rightarrow> bool \<Rightarrow> ((error + unit) \<times> shell) option" where
  "mkdir sh p parents = resolved_path sh p (\<lambda>q. Some
     (if path_name q = [] then (Inl InvalidPathError, sh)
      else if \<not> parents then
        (case get_node (store sh) (root sh) (path_parent q) of
           Inl e \<Rightarrow> (Inl (except_raise NodeDoesNotExistError InvalidPathError e), sh)
         | Inr par \<Rightarrow>
             if \<not> is_Node (store sh par) then (Inl InvalidPathError, sh)
             else
               (case new_node (store sh) (fresh sh) (path_name q) (Some par) (Dir []) of
                  (Inl e, h1) \<Rightarrow>
                    (Inl (except_raise DuplicateNodeNameError InvalidPathError e),
                     sh\<lparr>store := h1, fresh := Suc (fresh sh)\<rparr>)
                | (Inr _, h1) \<Rightarrow> (Inr (), sh\<lparr>store := h1, fresh := Suc (fresh sh)\<rparr>)))
      else
        (case get_node (store sh) (root sh) (parse_path (anchor q)) of
           Inl e \<Rightarrow> (Inl (except_raise InvalidPathError InvalidPathError e), sh)
         | Inr n \<Rightarrow>
             if \<not> is_Node (store sh n) then (Inl InvalidPathError, sh)
             else
               (case mkdir_loop (store sh) (fresh sh) n (tl (path_parts q)) of
                  (r, h1, fr1) \<Rightarrow> (r, sh\<lparr>store := h1, fresh := fr1\<rparr>)))))"

definition mv :: "shell \<Rightarrow> path \<Rightarrow> path \<Rightarrow> ((error + unit) \<times> shell) option" where
  "mv sh source_path target_path = resolved_paths sh source_path target_path (\<lambda>q1 q2. Some
     (case move_node (store sh) (root sh) q1 q2 of
        (Inl e, h1) \<Rightarrow> (Inl (except_raise InvalidPathError InvalidPathError e), sh\<lparr>store := h1\<rparr>)
      | (Inr _, h1) \<Rightarrow> (Inr (), sh\<lparr>store := h1\<rparr>)))"

text \<open>\<^verbatim>\<open>touch\<close> with the default \<^verbatim>\<open>file_type\<close>, \<^verbatim>\<open>LeafNode\<close>.\<close>

definition touch :: "shell \<Rightarrow> path \<Rightarrow> ((error + unit) \<times> shell) option" where
  "touch sh p = resolved_path sh p (\<lambda>q. Some
     (if path_name q = [] then (Inl InvalidPathError, sh)
      else
        (case get_node (store sh) (root sh) (path_parent q) of
           Inl e \<Rightarrow> (Inl (except_raise NodeDoesNotExistError InvalidPathError e), sh)
         | Inr par \<Rightarrow>
             if \<not> is_Node (store sh par) then (Inl InvalidPathError, sh)
             else
               (case new_node (store sh) (fresh sh) (path_name q) (Some par) (Leaf PyNone []) of
                  (Inl e, h1) \<Rightarrow>
                    (Inl (except_raise DuplicateNodeNameError InvalidPathError e),
                     sh\<lparr>store := h1, fresh := Suc (fresh sh)\<rparr>)
                | (Inr _, h1) \<Rightarrow> (Inr (), sh\<lparr>store := h1, fresh := Suc (fresh sh)\<rparr>)))))"

subsection \<open>LeafNode data and watchers\<close>

text \<open>
  \<^verbatim>\<open>LeafNode.execute_callbacks\<close> computes the path of the leaf once and calls every
  registered callback with it; \<^verbatim>\<open>LeafNode.set_data\<close> stores the data first.
  \<^verbatim>\<open>clear_data\<close> is \<^verbatim>\<open>set_data\<close> with \<^verbatim>\<open>None\<close>.
\<close>

definition execute_callbacks ::
  "heap \<Rightarrow> nid \<Rightarrow> (callback \<times> path) list \<Rightarrow> (callback \<times> path) list option" where
  "execute_callbacks h n tr =
     (case get_path h n of
        None \<Rightarrow> None
      | Some p \<Rightarrow>
          (case body (h n) of
             Dir _ \<Rightarrow> Some tr
           | Leaf _ cbs \<Rightarrow> Some (tr @ map (\<lambda>cb. (cb, p)) cbs)))"

definition leaf_set_data :: "shell \<Rightarrow> nid \<Rightarrow> pyobj \<Rightarrow> ((error + unit) \<times> shell) option" where
  "leaf_set_data sh n d =
     (case body (store sh n) of
        Dir _ \<Rightarrow> Some (Inl AttributeError, sh)
      | Leaf _ cbs \<Rightarrow>
          (case execute_callbacks ((store sh)(n := (store sh n)\<lparr>body := Leaf d cbs\<rparr>)) n (calls sh) of
             None \<Rightarrow> None
           | Some tr \<Rightarrow>
               Some (Inr (), sh\<lparr>store := (store sh)(n := (store sh n)\<lparr>body := Leaf d cbs\<rparr>),
                               calls := tr\<rparr>)))"




subsection \<open>The remaining operations of the shell\<close>

definition get_data :: "shell \<Rightarrow> path \<Rightarrow> ((error + pyobj) \<times> shell) option" where
  "get_data sh p = resolved_path sh p (\<lambda>q. Some
     (case get_node (store sh) (root sh) q of
        Inl e \<Rightarrow> (Inl (except_raise NodeDoesNotExistError InvalidPathError e), sh)
      | Inr n \<Rightarrow>
          (case body (store sh n) of
             Dir _ \<Rightarrow> (Inl InvalidPathError, sh)
           | Leaf d _ \<Rightarrow> (Inr d, sh))))"

definition set_data :: "shell \<Rightarrow> path \<Rightarrow> pyobj \<Rightarrow> ((error + unit) \<times> shell) option" where
  "set_data sh p d = resolved_path sh p (\<lambda>q.
     (case get_node (store sh) (root sh) q of
        Inl e \<Rightarrow> Some (Inl (except_raise InvalidPathError InvalidPathError e), sh)
      | Inr n \<Rightarrow>
          if \<not> is_LeafNode (store sh n) then Some (Inl InvalidPathError, sh)
          else leaf_set_data sh n d))"


definition get_metadata :: "shell \<Rightarrow> path \<Rightarrow> pyobj \<Rightarrow> ((error + pyobj) \<times> shell) option" where
  "get_metadata sh p k = resolved_path sh p (\<lambda>q. Some
     (case get_node (store sh) (root sh) q of
        Inl e \<Rightarrow> (Inl (except_raise InvalidPathError InvalidPathError e), sh)
      | Inr n \<Rightarrow>
          (case meta (store sh n) k of
             None \<Rightarrow> (Inl KeyError, sh)
           | Some v \<Rightarrow> (Inr v, sh))))"

definition set_metadata :: "shell \<Rightarrow> path \<Rightarrow> pyobj \<Rightarrow> pyobj \<Rightarrow> ((error + unit) \<times> shell) option" where
  "set_metadata sh p k v = resolved_path sh p (\<lambda>q. Some
     (case get_node (store sh) (root sh) q of
        Inl e \<Rightarrow> (Inl (except_raise InvalidPathError InvalidPathError e), sh)
      | Inr n \<Rightarrow>
          (Inr (), sh\<lparr>store := (store sh)(n := (store sh n)\<lparr>meta := (meta (store sh n))(k \<mapsto> v)\<rparr>)\<rparr>)))"

definition del_metadata :: "shell \<Rightarrow> path \<Rightarrow> pyobj \<Rightarrow> ((error + pyobj) \<times> shell) option" where
  "del_metadata sh p k = resolved_path sh p (\<lambda>q. Some
     (case get_node (store sh) (root sh) q of
        Inl e \<Rightarrow> (Inl (except_raise InvalidPathError InvalidPathError e), sh)
      | Inr n \<Rightarrow>
          (case meta (store sh n) k of
             None \<Rightarrow> (Inl KeyError, sh)
           | Some v \<Rightarrow>
               (Inr v, sh\<lparr>store := (store sh)(n := (store sh n)\<lparr>meta := (meta (store sh n))(k := None)\<rparr>)\<rparr>))))"

definition rm :: "shell \<Rightarrow> path \<Rightarrow> bool \<Rightarrow> ((error + nid) \<times> shell) option" where
  "rm sh p recursive = resolved_path sh p (\<lambda>q. Some
     (case get_node (store sh) (root sh) q of
        Inl e \<Rightarrow> (Inl (except_raise NodeDoesNotExistError InvalidPathError e), sh)
      | Inr n \<Rightarrow>
          if is_Node (store sh n) \<and> \<not> recursive then (Inl InvalidPathError, sh)
          else
            (case parent (store sh n) of
               None \<Rightarrow> (Inl InvalidPathError, sh)
             | Some par \<Rightarrow>
                 (case remove_child (store sh) par (name (store sh n)) of
                    (r, h1) \<Rightarrow> (r, sh\<lparr>store := h1\<rparr>)))))"

definition ls :: "shell \<Rightarrow> path \<Rightarrow> ((error + string list) \<times> shell) option" where
  "ls sh p = resolved_path sh p (\<lambda>q. Some
     (case get_node (store sh) (root sh) q of
        Inl e \<Rightarrow> (Inl (except_raise InvalidPathError InvalidPathError e), sh)
      | Inr n \<Rightarrow>
          (case body (store sh n) of
             Leaf _ _ \<Rightarrow> (Inl InvalidPathError, sh)
           | Dir ms \<Rightarrow> (Inr (sort (map (\<lambda>c. name (store sh c)) ms)), sh))))"



section \<open>Well-formed trees\<close>

text \<open>
  A name that is one component of a path: not empty, not \<^verbatim>\<open>.\<close>, without \<^verbatim>\<open>/\<close>. These
  are the names a parsed path can give to a node.
\<close>

definition valid_component :: "string \<Rightarrow> bool" where
  "valid_component c = (c \<noteq> [] \<and> c \<noteq> ''.'' \<and> CHR ''/'' \<notin> set c)"

text \<open>
  The invariants of the data model: the root is called \<^verbatim>\<open>/\<close> and has no parent, every
  member of a node's \<^verbatim>\<open>NodeSet\<close> has that node as its parent, and the members of a
  \<^verbatim>\<open>NodeSet\<close> have different names.
\<close>

definition wf_tree :: "heap \<Rightarrow> nid \<Rightarrow> bool" where
  "wf_tree h r =
     (name (h r) = ''/'' \<and> parent (h r) = None
      \<and> (\<forall>p. \<forall>c \<in> set (kids h p). parent (h c) = Some p)
      \<and> (\<forall>p. distinct (map (\<lambda>c. name (h c)) (kids h p))))"

text \<open>The nodes reachable from \<open>r\<close> through the sets of children.\<close>

inductive_set reach :: "heap \<Rightarrow> nid \<Rightarrow> nid set" for h :: heap and r :: nid where
  reach_root: "r \<in> reach h r"
| reach_kid: "p \<in> reach h r \<Longrightarrow> c \<in> set (kids h p) \<Longrightarrow> c \<in> reach h r"

text \<open>
  \<open>up_chain h n ms\<close>: the parent references from \<open>n\<close> upwards pass through \<open>ms\<close>, in
  this order, and end at the last of them, which has no parent.
\<close>

fun up_chain :: "heap \<Rightarrow> nid \<Rightarrow> nid list \<Rightarrow> bool" where
  "up_chain h n [] = (parent (h n) = None)"
| "up_chain h n (m # ms) = (parent (h n) = Some m \<and> up_chain h m ms)"

section \<open>Concrete shells\<close>

text \<open>The state an operation leaves behind (the initial shell if it does not return).\<close>

definition state_after :: "((error + 'a) \<times> shell) option \<Rightarrow> shell" where
  "state_after r = (case r of None \<Rightarrow> init_shell | Some (_, sh) \<Rightarrow> sh)"

text \<open>
  \<^verbatim>\<open>mkdir("/a/x", parents=True); mkdir("/b"); touch("/b/x")\<close> on a new shell: the objects
  are 0 (the root), 1 (\<^verbatim>\<open>/a\<close>), 2 (\<^verbatim>\<open>/a/x\<close>), 3 (\<^verbatim>\<open>/b\<close>) and 4 (\<^verbatim>\<open>/b/x\<close>).
\<close>

definition collide_shell :: shell where
  "collide_shell =
     state_after (touch
       (state_after (mkdir
          (state_after (mkdir init_shell (parse_path ''/a/x'') True))
          (parse_path ''/b'') False))
       (parse_path ''/b/x''))"

text \<open>
  \<^verbatim>\<open>mkdir("/a"); touch("/a/y"); touch("/a/x"); mkdir("/b")\<close> on a new shell: the objects
  are 0 (the root), 1 (\<^verbatim>\<open>/a\<close>), 2 (\<^verbatim>\<open>/a/y\<close>), 3 (\<^verbatim>\<open>/a/x\<close>) and 4 (\<^verbatim>\<open>/b\<close>).
\<close>

definition rename_shell :: shell where
  "rename_shell =
     state_after (mkdir
       (state_after (touch
          (state_after (touch
             (state_after (mkdir init_shell (parse_path ''/a'') False))
             (parse_path ''/a/y'')))
          (parse_path ''/a/x'')))
       (parse_path ''/b'') False)"

text \<open>
  \<open>rename_shell\<close> after \<^verbatim>\<open>mkdir("/c"); mkdir("/d"); touch("/d/y")\<close> (objects 5, 6
  and 7), \<^verbatim>\<open>mv("/a/x", "/b/y")\<close>, which returns, and \<^verbatim>\<open>mv("/b/y", "/d")\<close>, which raises
  \<^verbatim>\<open>DuplicateNodeNameError\<close>.
\<close>

definition tangle_shell :: shell where
  "tangle_shell =
     state_after (mv
       (state_after (mv
          (state_after (touch
             (state_after (mkdir
                (state_after (mkdir rename_shell (parse_path ''/c'') False))
                (parse_path ''/d'') False))
             (parse_path ''/d/y'')))
          (parse_path ''/a/x'') (parse_path ''/b/y'')))
       (parse_path ''/b/y'') (parse_path ''/d''))"

text \<open>
  A shell with the directories \<^verbatim>\<open>/a\<close> (object 1) and \<^verbatim>\<open>/a/b\<close> (object 2) and the leaf
  \<^verbatim>\<open>/a/f\<close> (object 3), whose working directory is \<^verbatim>\<open>/a/b\<close>: the state after
  \<^verbatim>\<open>mkdir("/a/b", parents=True); touch("/a/f"); cd("/a/b")\<close>, written out.
\<close>

definition example_shell :: shell where
  "example_shell =
     \<lparr>store = (\<lambda>_. \<lparr>name = [], parent = None, meta = Map.empty, body = Dir []\<rparr>)
                (0 := \<lparr>name = ''/'', parent = None, meta = Map.empty, body = Dir [1]\<rparr>,
                 1 := \<lparr>name = ''a'', parent = Some 0, meta = Map.empty, body = Dir [2, 3]\<rparr>,
                 2 := \<lparr>name = ''b'', parent = Some 1, meta = Map.empty, body = Dir []\<rparr>,
                 3 := \<lparr>name = ''f'', parent = Some 1, meta = Map.empty, body = Leaf PyNone []\<rparr>),
      fresh = 4, root = 0, cwd = 2, calls = []\<rparr>"

section \<open>Moving and reparenting\<close>

lemma collide_shell_shape:
  "map (\<lambda>i. (name (store collide_shell i), parent (store collide_shell i),
              kids (store collide_shell) i)) [0, 1, 2, 3, 4] =
     [(''/'', None, [1, 3]), (''a'', Some 0, [2]), (''x'', Some 1, []),
      (''b'', Some 0, [4]), (''x'', Some 3, [])]"
  by code_simp

text \<open>
  C1. A failed move must leave the source where it was, under its old name. On
  \<open>collide_shell\<close>, \<^verbatim>\<open>mv("/a/x", "/b")\<close> fails because \<^verbatim>\<open>/b\<close> already has a child
  \<^verbatim>\<open>x\<close>, with \<^verbatim>\<open>DuplicateNodeNameError\<close>. Afterwards the source (object 2) still has its
  name and its \<^verbatim>\<open>_parent\<close> still refers to \<^verbatim>\<open>/a\<close>, but it is no longer among the children
  of \<^verbatim>\<open>/a\<close>: the path \<^verbatim>\<open>/a/x\<close>, which resolved to it before the call, resolves to
  nothing. The failed move has taken the source out of the tree.
\<close>

theorem C1_failed_move_detaches_source:
  "get_node (store collide_shell) (root collide_shell) (parse_path ''/a/x'') = Inr 2
   \<and> kids (store collide_shell) 1 = [2]
   \<and> map_option fst (mv collide_shell (parse_path ''/a/x'') (parse_path ''/b''))
       = Some (Inl DuplicateNodeNameError)
   \<and> (let sh = state_after (mv collide_shell (parse_path ''/a/x'') (parse_path ''/b''))
      in name (store sh 2) = ''x''
         \<and> parent (store sh 2) = Some 1
         \<and> kids (store sh) 1 = []
         \<and> kids (store sh) 3 = [4]
         \<and> get_node (store sh) (root sh) (parse_path ''/a/x'') = Inl NodeDoesNotExistError)"
  by code_simp

text \<open>
  C6. When \<^verbatim>\<open>set_parent\<close> fails with \<^verbatim>\<open>DuplicateNodeNameError\<close> the node must end up
  detached and must not report the old parent. On \<open>collide_shell\<close>, reparenting
  \<^verbatim>\<open>/a/x\<close> (object 2) to \<^verbatim>\<open>/b\<close> (object 3) fails that way; the node is then in no
  \<^verbatim>\<open>NodeSet\<close>, but its \<^verbatim>\<open>parent\<close> is still \<^verbatim>\<open>/a\<close> (object 1), since \<^verbatim>\<open>_parent\<close> is
  assigned only after the insertion. Detaching with \<^verbatim>\<open>set_parent(None)\<close> does clear it.
\<close>

theorem C6_failed_set_parent_keeps_old_parent:
  "parent (store collide_shell 2) = Some 1
   \<and> fst (set_parent (store collide_shell) 2 (Some 3)) = Inl DuplicateNodeNameError
   \<and> (let h = snd (set_parent (store collide_shell) 2 (Some 3))
      in list_all (\<lambda>p. 2 \<notin> set (kids h p)) [0, 1, 2, 3, 4]
         \<and> parent (h 2) = Some 1)
   \<and> fst (set_parent (store collide_shell) 2 None) = Inr ()
   \<and> parent (snd (set_parent (store collide_shell) 2 None) 2) = None"
  by code_simp

text \<open>
  \<^verbatim>\<open>NodeSet.add\<close> itself keeps the names in a set different: when it returns, the node
  has been added to a set that had no member of its name.
\<close>

lemma children_add_distinct:
  assumes "children_add h p n = (Inr u, h')"
    and "distinct (map (\<lambda>c. name (h c)) (kids h p))"
  shows "kids h' p = kids h p @ [n] \<and> distinct (map (\<lambda>c. name (h' c)) (kids h' p))"
proof -
  from assms(1) obtain ms where b: "body (h p) = Dir ms"
    and nc: "\<not> nodeset_contains h ms (name (h n))"
    and h': "h' = h(p := (h p)\<lparr>body := Dir (ms @ [n])\<rparr>)"
    by (cases "body (h p)") (auto simp: children_add_def split: if_splits)
  have nm: "name (h' c) = name (h c)" for c by (simp add: h')
  from b h' have k: "kids h' p = ms @ [n]" "kids h p = ms" by (simp_all add: kids_def)
  from nc have "name (h n) \<notin> set (map (\<lambda>c. name (h c)) ms)"
    by (auto simp: nodeset_contains_def list_ex_iff)
  with assms(2) k show ?thesis by (simp add: nm)
qed

lemma rename_shell_shape:
  "map (\<lambda>i. (name (store rename_shell i), parent (store rename_shell i),
              kids (store rename_shell) i)) [0, 1, 2, 3, 4] =
     [(''/'', None, [1, 4]), (''a'', Some 0, [2, 3]), (''y'', Some 1, []),
      (''x'', Some 1, []), (''b'', Some 0, [])]"
  by code_simp

text \<open>
  C2. No directory may ever hold two children of the same name, and no operation may
  rename a node inside its old parent's set so that it duplicates a sibling. On
  \<open>rename_shell\<close>, \<^verbatim>\<open>mv("/a/x", "/b/y")\<close> renames \<^verbatim>\<open>/a/x\<close> (object 3) to \<^verbatim>\<open>y\<close> while
  it is still a child of \<^verbatim>\<open>/a\<close>, next to the child \<^verbatim>\<open>y\<close> (object 2): when
  \<^verbatim>\<open>set_parent\<close> is called, \<^verbatim>\<open>/a\<close> holds two children named \<^verbatim>\<open>y\<close>.
\<close>

theorem C2_rename_duplicates_sibling_name:
  "distinct (map (\<lambda>c. name (store rename_shell c)) (kids (store rename_shell) 1))
   \<and> fst (move_node_resolve (store rename_shell) (root rename_shell)
            (Path ''/'' [''a'', ''x'']) (Path ''/'' [''b'', ''y''])) = Inr (3, 4)
   \<and> (let h = snd (move_node_resolve (store rename_shell) (root rename_shell)
                     (Path ''/'' [''a'', ''x'']) (Path ''/'' [''b'', ''y'']))
      in kids h 1 = [2, 3] \<and> map (\<lambda>c. name (h c)) (kids h 1) = [''y'', ''y''])"
  by code_simp

text \<open>
  What \<^verbatim>\<open>set_parent\<close> then removes from \<^verbatim>\<open>/a\<close> is the first child named \<^verbatim>\<open>y\<close> that
  the set yields. When that is the sibling (as in the order of this model), the move
  succeeds, the sibling is dropped from \<^verbatim>\<open>/a\<close>, and the source is a child of both
  \<^verbatim>\<open>/a\<close> and \<^verbatim>\<open>/b\<close>.
\<close>

lemma mv_rename_may_drop_sibling:
  "map_option fst (mv rename_shell (parse_path ''/a/x'') (parse_path ''/b/y'')) = Some (Inr ())
   \<and> (let sh = state_after (mv rename_shell (parse_path ''/a/x'') (parse_path ''/b/y''))
      in kids (store sh) 1 = [3] \<and> kids (store sh) 4 = [3]
         \<and> parent (store sh 3) = Some 4 \<and> parent (store sh 2) = Some 1)"
  by code_simp

text \<open>
  Once a move has dropped the sibling as above, the source is a child of \<^verbatim>\<open>/a\<close> whose
  \<^verbatim>\<open>_parent\<close> is \<^verbatim>\<open>/b\<close>. A further failed move (into \<^verbatim>\<open>/d\<close>, which has a child
  \<^verbatim>\<open>y\<close>) takes it out of \<^verbatim>\<open>/b\<close>; this is \<open>tangle_shell\<close>. There
  \<^verbatim>\<open>mv("/a/y", "/c/z")\<close> renames the source to \<^verbatim>\<open>z\<close> and then fails in
  \<^verbatim>\<open>set_parent\<close>, which finds no \<^verbatim>\<open>z\<close> in \<^verbatim>\<open>/b\<close>: the source keeps the new name.
  Like \<open>mv_rename_may_drop_sibling\<close>, on which it rests, this depends on the order in
  which the set of \<^verbatim>\<open>/a\<close> yields its two members named \<^verbatim>\<open>y\<close>.
\<close>

lemma mv_failed_after_rename_keeps_new_name:
  "get_node (store tangle_shell) (root tangle_shell) (parse_path ''/a/y'') = Inr 3
   \<and> name (store tangle_shell 3) = ''y''
   \<and> map_option fst (mv tangle_shell (parse_path ''/a/y'') (parse_path ''/c/z''))
       = Some (Inl NodeDoesNotExistError)
   \<and> (let sh = state_after (mv tangle_shell (parse_path ''/a/y'') (parse_path ''/c/z''))
      in name (store sh 3) = ''z'' \<and> kids (store sh) 1 = [3] \<and> kids (store sh) 5 = [])"
  by code_simp

section \<open>Exceptions that leave the shell\<close>

text \<open>
  C3. The shell must turn \<^verbatim>\<open>NodeDoesNotExistError\<close> and \<^verbatim>\<open>DuplicateNodeNameError\<close>
  into \<^verbatim>\<open>InvalidPathError\<close>. \<^verbatim>\<open>cd\<close> does so for a missing path; \<^verbatim>\<open>ls\<close> and
  \<^verbatim>\<open>set_data\<close>, whose handler names \<^verbatim>\<open>InvalidPathError\<close> instead, let
  \<^verbatim>\<open>NodeDoesNotExistError\<close> through, and \<^verbatim>\<open>mv\<close> lets \<^verbatim>\<open>DuplicateNodeNameError\<close>
  through.
\<close>

theorem C3_internal_errors_escape:
  "map_option fst (cd init_shell (parse_path ''/nope'')) = Some (Inl InvalidPathError)
   \<and> map_option fst (ls init_shell (parse_path ''/nope'')) = Some (Inl NodeDoesNotExistError)
   \<and> map_option fst (set_data init_shell (parse_path ''/nope'') (PyInt 1))
       = Some (Inl NodeDoesNotExistError)
   \<and> map_option fst (mv collide_shell (parse_path ''/a/x'') (parse_path ''/b''))
       = Some (Inl DuplicateNodeNameError)"
  by code_simp

section \<open>Path resolution\<close>

text \<open>
  C4. Resolution must collapse every \<^verbatim>\<open>..\<close> with the component before it and never
  climb above the root. The two examples of the specification come out as stated, but
  two \<^verbatim>\<open>..\<close> in a row are not both collapsed (the loop skips the element that moves
  into a deleted position), and a \<^verbatim>\<open>..\<close> in first position deletes the last component
  (\<^verbatim>\<open>del parts[idx - 1]\<close> with \<^verbatim>\<open>idx = 0\<close>).
\<close>

theorem C4_dotdot_not_always_collapsed:
  "resolve_path init_shell (parse_path ''/a/b/../c'') = Some (Inr (Path ''/'' [''a'', ''c'']))
   \<and> resolve_path init_shell (parse_path ''/..'') = Some (Inr (Path ''/'' []))
   \<and> resolve_path init_shell (parse_path ''/a/b/../../c'')
       = Some (Inr (Path ''/'' [''a'', ''..'', ''c'']))
   \<and> resolve_path init_shell (parse_path ''/../a'') = Some (Inr (Path ''/'' []))"
  by code_simp

section \<open>Paths of nodes\<close>

lemma split_sep_no_sep: "CHR ''/'' \<notin> set c \<Longrightarrow> split_sep c = [c]"
  by (induction c) auto

text \<open>Every component of a parsed path is a valid component.\<close>

lemma split_sep_clean: "\<forall>w \<in> set (split_sep s). CHR ''/'' \<notin> set w"
  by (induction s) (auto split: list.splits)

lemma parse_path_comps_valid: "list_all valid_component (comps (parse_path s))"
  using split_sep_clean
  by (auto simp: parse_path_def list_all_iff valid_component_def split: prod.splits)

lemma parse_path_component: "valid_component c \<Longrightarrow> parse_path c = Path [] [c]"
  by (cases c) (auto simp: valid_component_def parse_path_def splitroot_def split_sep_no_sep)

lemma parse_path_root: "parse_path ''/'' = Path ''/'' []"
  by code_simp

lemma rtruediv_component: "valid_component c \<Longrightarrow> rtruediv c (Path [] cs) = Path [] (c # cs)"
  by (simp add: rtruediv_def joinpath_def parse_path_component)

lemma rtruediv_root: "rtruediv ''/'' (Path [] cs) = Path ''/'' cs"
  by (simp add: rtruediv_def joinpath_def parse_path_root)

lemma children_get_Inr:
  "children_get h p nm = Inr c \<Longrightarrow> c \<in> set (kids h p) \<and> name (h c) = nm"
  by (auto simp: children_get_def kids_def find_Some_iff split: body.splits option.splits)

lemma find_distinct_map:
  "distinct (map f xs) \<Longrightarrow> x \<in> set xs \<Longrightarrow> find (\<lambda>m. f m = f x) xs = Some x"
  by (induction xs) auto

lemma children_get_kid:
  assumes "wf_tree h r" "c \<in> set (kids h p)"
  shows "children_get h p (name (h c)) = Inr c"
proof -
  from assms(2) obtain ms where b: "body (h p) = Dir ms" and c: "c \<in> set ms"
    by (cases "body (h p)") (auto simp: kids_def)
  from assms(1) have "distinct (map (\<lambda>c. name (h c)) (kids h p))"
    by (simp add: wf_tree_def)
  with b have "distinct (map (\<lambda>c. name (h c)) ms)" by (simp add: kids_def)
  from find_distinct_map[OF this c] b show ?thesis
    by (simp add: children_get_def)
qed

lemma walk_append:
  "walk h n (ps @ qs) = (case walk h n ps of Inl e \<Rightarrow> Inl e | Inr m \<Rightarrow> walk h m qs)"
  by (induction ps arbitrary: n) (auto split: sum.splits)

lemma get_path_loop_top: "parent (h n) = None \<Longrightarrow> get_path_loop h n p = Some p"
  by (subst get_path_loop.simps) simp

lemma get_path_loop_step:
  "parent (h n) = Some q \<Longrightarrow> get_path_loop h n p = get_path_loop h q (rtruediv (name (h q)) p)"
  by (subst get_path_loop.simps) simp

lemma walk_last:
  assumes "wf_tree h r" "walk h r (ps @ [c]) = Inr n"
  shows "\<exists>m. walk h r ps = Inr m \<and> parent (h n) = Some m \<and> name (h n) = c"
proof -
  from assms(2) obtain m where m: "walk h r ps = Inr m" and g: "children_get h m c = Inr n"
    by (auto simp: walk_append get_child_def split: sum.splits)
  from children_get_Inr[OF g] assms(1) have "parent (h n) = Some m" "name (h n) = c"
    by (auto simp: wf_tree_def)
  with m show ?thesis by simp
qed

lemma get_path_loop_walk:
  assumes "wf_tree h r"
  shows "walk h r (ps @ [c]) = Inr n \<Longrightarrow> list_all valid_component ps
         \<Longrightarrow> get_path_loop h n (Path [] (c # rest)) = Some (Path ''/'' (ps @ c # rest))"
proof (induction ps arbitrary: c n rest rule: rev_induct)
  case Nil
  from walk_last[OF assms, of "[]" c n] Nil.prems(1)
  have p: "parent (h n) = Some r" by simp
  from assms have r: "name (h r) = ''/''" "parent (h r) = None" by (simp_all add: wf_tree_def)
  show ?case
    by (simp add: get_path_loop_step[of h n r, OF p] r rtruediv_root get_path_loop_top)
next
  case (snoc d ps)
  from walk_last[OF assms snoc.prems(1)] obtain m
    where m: "walk h r (ps @ [d]) = Inr m" and p: "parent (h n) = Some m" by auto
  from walk_last[OF assms m] have nm: "name (h m) = d" by auto
  from snoc.prems(2) have v: "valid_component d" "list_all valid_component ps" by simp_all
  from snoc.IH[OF m v(2), of "c # rest"] show ?case
    by (simp add: get_path_loop_step[of h n m, OF p] nm rtruediv_component[OF v(1)])
qed

lemma get_path_walk:
  assumes "wf_tree h r" "walk h r ps = Inr n" "list_all valid_component ps"
  shows "get_path h n = Some (Path ''/'' ps)"
proof (cases ps rule: rev_cases)
  case Nil
  with assms show ?thesis
    by (simp add: get_path_def wf_tree_def parse_path_root get_path_loop_top)
next
  case (snoc qs c)
  with assms have w: "walk h r (qs @ [c]) = Inr n" and v: "list_all valid_component qs"
    and vc: "valid_component c" by simp_all
  from walk_last[OF assms(1) w] have "name (h n) = c" by auto
  with get_path_loop_walk[OF assms(1) w v, of "[]"] snoc vc show ?thesis
    by (simp add: get_path_def parse_path_component)
qed

lemma get_node_absolute:
  "name (h r) = ''/'' \<Longrightarrow> get_node h r (Path ''/'' ps) = walk h r ps"
  by (simp add: get_node_def path_parts_def)

lemma reach_walk:
  assumes "wf_tree h r" "\<forall>m \<in> reach h r. m \<noteq> r \<longrightarrow> valid_component (name (h m))"
  shows "n \<in> reach h r \<Longrightarrow> \<exists>ps. walk h r ps = Inr n \<and> list_all valid_component ps"
proof (induction rule: reach.induct)
  case reach_root
  have "walk h r [] = Inr r \<and> list_all valid_component []" by simp
  then show ?case by blast
next
  case (reach_kid p c)
  then obtain ps where ps: "walk h r ps = Inr p" "list_all valid_component ps" by auto
  from reach_kid have cr: "c \<in> reach h r" by (auto intro: reach.reach_kid)
  from assms(1) reach_kid(2) have "parent (h c) = Some p" by (simp add: wf_tree_def)
  with assms(1) have "c \<noteq> r" by (auto simp: wf_tree_def)
  with assms(2) cr have v: "valid_component (name (h c))" by blast
  from children_get_kid[OF assms(1) reach_kid(2)] ps v
  have "walk h r (ps @ [name (h c)]) = Inr c \<and> list_all valid_component (ps @ [name (h c)])"
    by (simp add: walk_append get_child_def)
  then show ?case by blast
qed

text \<open>
  As long as the tree is well formed and the nodes below the root are named by path
  components, \<^verbatim>\<open>get_path\<close> returns an absolute path for every node \<open>n\<close> that the
  root reaches through the sets of children, and \<^verbatim>\<open>get_node\<close> resolves that path to
  \<open>n\<close> itself.
\<close>

lemma round_trip_of_children:
  assumes "wf_tree h r"
    and "\<forall>m \<in> reach h r. m \<noteq> r \<longrightarrow> valid_component (name (h m))"
    and "n \<in> reach h r"
  shows "\<exists>ps. get_path h n = Some (Path ''/'' ps) \<and> get_node h r (Path ''/'' ps) = Inr n"
proof -
  from reach_walk[OF assms] obtain ps
    where ps: "walk h r ps = Inr n" "list_all valid_component ps" by auto
  from assms(1) have "name (h r) = ''/''" by (simp add: wf_tree_def)
  with get_path_walk[OF assms(1) ps] ps(1) show ?thesis
    by (simp add: get_node_absolute)
qed

text \<open>
  C5. Every node whose parent references lead to the root must be what \<^verbatim>\<open>get_node\<close>
  returns for its \<^verbatim>\<open>get_path\<close>. On \<open>collide_shell\<close> this holds for \<^verbatim>\<open>/a/x\<close>
  (object 2). After the failed \<^verbatim>\<open>mv("/a/x", "/b")\<close> the parent references of object 2
  still lead through \<^verbatim>\<open>/a\<close> (object 1) to the root (object 0), and \<^verbatim>\<open>get_path\<close> still
  returns \<^verbatim>\<open>/a/x\<close>, but \<^verbatim>\<open>get_node\<close> raises \<^verbatim>\<open>NodeDoesNotExistError\<close> for that path:
  \<^verbatim>\<open>set_parent\<close> has removed the node from the children of \<^verbatim>\<open>/a\<close> and left its
  \<^verbatim>\<open>_parent\<close> as it was.
\<close>

theorem C5_round_trip_fails_after_failed_move:
  "up_chain (store collide_shell) 2 [1, 0] \<and> root collide_shell = 0
   \<and> get_path (store collide_shell) 2 = Some (Path ''/'' [''a'', ''x''])
   \<and> get_node (store collide_shell) (root collide_shell) (Path ''/'' [''a'', ''x'']) = Inr 2
   \<and> map_option fst (mv collide_shell (parse_path ''/a/x'') (parse_path ''/b''))
       = Some (Inl DuplicateNodeNameError)
   \<and> (let sh = state_after (mv collide_shell (parse_path ''/a/x'') (parse_path ''/b''))
      in up_chain (store sh) 2 [1, 0] \<and> root sh = 0
         \<and> get_path (store sh) 2 = Some (Path ''/'' [''a'', ''x''])
         \<and> get_node (store sh) (root sh) (Path ''/'' [''a'', ''x''])
             = Inl NodeDoesNotExistError)"
  by code_simp


section \<open>Removal\<close>







section \<open>Resolution of the empty path\<close>

lemma py_del_Inr_length: "py_del xs i = Inr ys \<Longrightarrow> Suc (length ys) = length xs"
  by (auto simp: py_del_def delete_at_def split: if_splits)

lemma py_del_index: "idx < length xs \<Longrightarrow> \<exists>ys. py_del xs (int idx) = Inr ys"
  by (simp add: py_del_def)

lemma py_del_before: "idx \<le> length xs \<Longrightarrow> xs \<noteq> [] \<Longrightarrow> \<exists>ys. py_del xs (int idx - 1) = Inr ys"
  by (cases xs) (auto simp: py_del_def)

lemma collapse_returns: "\<exists>ps. collapse idx parts = Inr ps"
proof (induction idx parts rule: collapse.induct)
  case (1 idx parts)
  show ?case
  proof (cases "idx < length parts")
    case False
    then show ?thesis by (subst collapse.simps) simp
  next
    case lt: True
    from py_del_index[OF lt] obtain ps where ps: "py_del parts (int idx) = Inr ps" by blast
    from py_del_Inr_length[OF ps] lt have le: "idx \<le> length ps" by simp
    show ?thesis
    proof (cases "parts ! idx = ''.''")
      case True
      with "1.IH"(1)[OF lt True ps] lt ps show ?thesis
        by (subst collapse.simps) simp
    next
      case nd: False
      show ?thesis
      proof (cases "parts ! idx = ''..''")
        case False
        with "1.IH"(4)[OF lt nd False] lt nd show ?thesis
          by (subst collapse.simps) simp
      next
        case dd: True
        show ?thesis
        proof (cases "ps = []")
          case True
          with "1.IH"(3)[OF lt nd dd ps] lt nd dd ps show ?thesis
            by (subst collapse.simps) simp
        next
          case False
          from py_del_before[OF le False] obtain ps' where ps': "py_del ps (int idx - 1) = Inr ps'"
            by blast
          with "1.IH"(2)[OF lt nd dd ps False ps'] lt nd dd ps False show ?thesis
            by (subst collapse.simps) simp
        qed
      qed
    qed
  qed
qed

lemma path_str_no_parts: "path_parts p = [] \<Longrightarrow> path_str p = ''.''"
  by (auto simp: path_parts_def path_str_def split: if_splits)

lemma resolve_path_not_invalid: "resolve_path sh p \<noteq> Some (Inl InvalidPathError)"
proof -
  have c: "collapse 0 ps \<noteq> Inl e" for ps e
    using collapse_returns[of 0 ps] by auto
  show ?thesis
    using c
    by (auto simp: resolve_path_def path_str_no_parts
        split: list.splits option.splits sum.splits if_splits prod.splits)
qed

text \<open>
  Where the working directory has an absolute path without \<^verbatim>\<open>..\<close>, the empty string
  resolves to that path, as \<^verbatim>\<open>.\<close> does.
\<close>

lemma resolve_path_empty_is_cwd:
  assumes "name (store sh (root sh)) = ''/''"
    and "pwd sh = Some (Path ''/'' cs)"
    and "''.'' \<notin> set cs" and "''..'' \<notin> set cs"
  shows "resolve_path sh (parse_path '''') = Some (Inr (Path ''/'' cs))
       \<and> resolve_path sh (parse_path '''') = resolve_path sh (parse_path ''.'')
       \<and> (\<forall>s. resolve_path sh (parse_path s) \<noteq> Some (Inl InvalidPathError))"
proof -
  have e: "parse_path '''' = Path [] []" "parse_path ''.'' = Path [] []" by code_simp+
  from assms have "resolve_path sh (Path [] []) = Some (Inr (Path ''/'' cs))"
    by (simp add: resolve_path_def path_parts_def path_str_def joinpath_def)
  with e resolve_path_not_invalid show ?thesis by simp
qed

text \<open>
  C9. The empty string must make \<^verbatim>\<open>resolve_path\<close>, and with it every operation that
  takes a path, raise \<^verbatim>\<open>InvalidPathError\<close>. It does not: \<^verbatim>\<open>pathlib.Path("")\<close> has no
  parts and its string is \<^verbatim>\<open>.\<close>, so the test \<^verbatim>\<open>str(path) != "."\<close> that guards the
  only \<^verbatim>\<open>raise InvalidPathError\<close> of \<^verbatim>\<open>resolve_path\<close> lets it through (by
  \<open>resolve_path_not_invalid\<close> nothing reaches that \<^verbatim>\<open>raise\<close>). On a new shell the
  empty string resolves to \<^verbatim>\<open>/\<close> and \<^verbatim>\<open>ls("")\<close> lists the root; on
  \<open>example_shell\<close>, whose working directory is \<^verbatim>\<open>/a/b\<close>, it resolves to \<^verbatim>\<open>/a/b\<close>,
  \<^verbatim>\<open>ls("")\<close> lists that directory and \<^verbatim>\<open>rm("", recursive=True)\<close> removes it.
\<close>

theorem C9_empty_path_not_rejected:
  "resolve_path init_shell (parse_path '''') = Some (Inr (Path ''/'' []))
   \<and> map_option fst (ls init_shell (parse_path '''')) = Some (Inr [])
   \<and> pwd example_shell = Some (Path ''/'' [''a'', ''b''])
   \<and> resolve_path example_shell (parse_path '''') = Some (Inr (Path ''/'' [''a'', ''b'']))
   \<and> map_option fst (ls example_shell (parse_path '''')) = Some (Inr [])
   \<and> map_option fst (cd example_shell (parse_path '''')) = Some (Inr ())
   \<and> map_option fst (rm example_shell (parse_path '''') True) = Some (Inr 2)
   \<and> kids (store (state_after (rm example_shell (parse_path '''') True))) 1 = [3]"
  by code_simp

lemma resolve_path_empty_is_cwd_example:
  "name (store init_shell (root init_shell)) = ''/''
   \<and> pwd init_shell = Some (Path ''/'' [])
   \<and> resolve_path init_shell (parse_path '''') = Some (Inr (Path ''/'' []))
   \<and> resolve_path init_shell (parse_path ''a/..'') \<noteq> Some (Inl InvalidPathError)"
proof -
  have a: "name (store init_shell (root init_shell)) = ''/''" by code_simp
  have b: "pwd init_shell = Some (Path ''/'' [])" by code_simp
  from resolve_path_empty_is_cwd[OF a b] a b show ?thesis by simp
qed

section \<open>The example shell\<close>

lemma example_shell_built:
  "(let sh = state_after (cd (state_after (touch (state_after
               (mkdir init_shell (parse_path ''/a/b'') True)) (parse_path ''/a/f'')))
               (parse_path ''/a/b''))
    in (fresh sh, root sh, cwd sh, calls sh,
        map (\<lambda>i. (name (store sh i), parent (store sh i), body (store sh i))) [0, 1, 2, 3]))
   = (fresh example_shell, root example_shell, cwd example_shell, calls example_shell,
      map (\<lambda>i. (name (store example_shell i), parent (store example_shell i),
                 body (store example_shell i))) [0, 1, 2, 3])"
  by code_simp

lemma example_shell_wf: "wf_tree (store example_shell) (root example_shell)"
  by (auto simp: wf_tree_def example_shell_def kids_def)

lemma example_shell_reach: "n \<in> reach (store example_shell) 0 \<Longrightarrow> n \<in> {0, 1, 2, 3}"
  by (induction rule: reach.induct) (auto simp: example_shell_def kids_def split: if_splits)

lemma example_shell_names:
  "\<forall>m \<in> reach (store example_shell) (root example_shell).
     m \<noteq> root example_shell \<longrightarrow> valid_component (name (store example_shell m))"
proof -
  have r: "root example_shell = 0" by (simp add: example_shell_def)
  show ?thesis unfolding r
    using example_shell_reach by (auto simp: example_shell_def valid_component_def)
qed

lemma round_trip_of_children_example:
  "wf_tree (store example_shell) (root example_shell)
   \<and> 3 \<in> reach (store example_shell) (root example_shell)
   \<and> (\<exists>ps. get_path (store example_shell) 3 = Some (Path ''/'' ps)
          \<and> get_node (store example_shell) (root example_shell) (Path ''/'' ps) = Inr 3)"
proof -
  have k1: "1 \<in> set (kids (store example_shell) 0)" "3 \<in> set (kids (store example_shell) 1)"
    by (simp_all add: example_shell_def kids_def)
  have r: "root example_shell = 0" by (simp add: example_shell_def)
  have "3 \<in> reach (store example_shell) 0"
    by (rule reach.reach_kid[OF reach.reach_kid[OF reach.reach_root k1(1)] k1(2)])
  then have m: "3 \<in> reach (store example_shell) (root example_shell)" by (simp add: r)
  from round_trip_of_children[OF example_shell_wf example_shell_names m] example_shell_wf m
  show ?thesis by blast
qed


section \<open>The working directory after a removal\<close>

lemma up_chain_unique: "up_chain h n xs \<Longrightarrow> up_chain h n ys \<Longrightarrow> xs = ys"
proof (induction xs arbitrary: n ys)
  case Nil
  then show ?case by (cases ys) auto
next
  case (Cons x xs)
  then show ?case by (cases ys) auto
qed

lemma up_chain_suffix: "up_chain h n (xs @ m # ys) \<Longrightarrow> up_chain h m ys"
  by (induction xs arbitrary: n) auto

lemma up_chain_fresh:
  assumes "up_chain h n (xs @ a # rest)"
  shows "a \<noteq> n \<and> a \<notin> set xs"
proof
  show "a \<noteq> n"
  proof
    assume "a = n"
    with up_chain_suffix[OF assms] have "up_chain h n rest" by simp
    from up_chain_unique[OF this assms] have "length rest = length (xs @ a # rest)" by simp
    then show False by simp
  qed
  show "a \<notin> set xs"
  proof
    assume "a \<in> set xs"
    then obtain us vs where xs: "xs = us @ a # vs" by (auto simp: in_set_conv_decomp)
    with assms have "up_chain h n (us @ a # (vs @ a # rest))" by simp
    from up_chain_suffix[OF this] have 1: "up_chain h a (vs @ a # rest)" .
    from up_chain_suffix[OF assms] have 2: "up_chain h a rest" .
    from up_chain_unique[OF 2 1] have "length rest = length (vs @ a # rest)" by simp
    then show False by simp
  qed
qed

lemma up_chain_cut:
  "up_chain h n (xs @ a # rest) \<Longrightarrow> parent (h' a) = None
   \<Longrightarrow> \<forall>x \<in> set (n # xs). parent (h' x) = parent (h x)
   \<Longrightarrow> up_chain h' n (xs @ [a])"
  by (induction xs arbitrary: n) auto

lemma get_path_loop_chain:
  "up_chain h n ms \<Longrightarrow> list_all (\<lambda>m. valid_component (name (h m))) ms
   \<Longrightarrow> get_path_loop h n (Path [] cs) = Some (Path [] (map (\<lambda>m. name (h m)) (rev ms) @ cs))"
proof (induction ms arbitrary: n cs)
  case Nil
  then show ?case by (simp add: get_path_loop_top)
next
  case (Cons m ms)
  then have p: "parent (h n) = Some m" and u: "up_chain h m ms"
    and v: "valid_component (name (h m))"
    and vs: "list_all (\<lambda>m. valid_component (name (h m))) ms" by simp_all
  from Cons.IH[OF u vs, of "name (h m) # cs"] show ?case
    by (simp add: get_path_loop_step[of h n m, OF p] rtruediv_component[OF v])
qed

lemma get_path_chain:
  assumes "up_chain h n ms" "list_all (\<lambda>m. valid_component (name (h m))) (n # ms)"
  shows "get_path h n = Some (Path [] (map (\<lambda>m. name (h m)) (rev ms) @ [name (h n)]))"
  using assms get_path_loop_chain[OF assms(1), of "[name (h n)]"]
  by (simp add: get_path_def parse_path_component)

lemma set_parent_None_frame:
  assumes "set_parent h c None = (Inr u, h')"
  shows "(\<forall>x. name (h' x) = name (h x)) \<and> parent (h' c) = None
         \<and> (\<forall>x. x \<noteq> c \<longrightarrow> parent (h' x) = parent (h x))"
  using assms
  by (auto simp: set_parent_def children_remove_def
      split: option.splits body.splits prod.splits sum.splits)

lemma rm_frame:
  assumes "rm sh p recursive = Some (Inr a, sh')"
  shows "cwd sh' = cwd sh \<and> (\<forall>x. name (store sh' x) = name (store sh x))
         \<and> parent (store sh' a) = None
         \<and> (\<forall>x. x \<noteq> a \<longrightarrow> parent (store sh' x) = parent (store sh x))"
proof -
  from assms obtain par nm h' u where sp: "set_parent (store sh) a None = (Inr u, h')"
    and sh': "sh' = sh\<lparr>store := h'\<rparr>"
    by (auto simp: rm_def resolved_path_def remove_child_def
        split: option.splits sum.splits if_splits prod.splits)
  from set_parent_None_frame[OF sp] sh' show ?thesis by simp
qed

text \<open>
  C10. Let \<^verbatim>\<open>rm\<close> return the node \<open>a\<close>, a proper ancestor of the working directory:
  the parent references from the working directory pass through \<open>ms\<close>, then \<open>a\<close>,
  then the rest up to the root. Afterwards \<^verbatim>\<open>pwd\<close> returns, without raising, the
  relative path that starts with the name of \<open>a\<close> and descends to the working directory.
\<close>

theorem C10_pwd_after_ancestor_removed:
  assumes "rm sh p True = Some (Inr a, sh')"
    and "up_chain (store sh) (cwd sh) (ms @ a # rest)"
    and "list_all (\<lambda>m. valid_component (name (store sh m))) (cwd sh # ms @ [a])"
  shows "pwd sh' = Some (Path [] (name (store sh a) # map (\<lambda>m. name (store sh m)) (rev ms)
                                  @ [name (store sh (cwd sh))]))"
proof -
  from rm_frame[OF assms(1)] have c: "cwd sh' = cwd sh"
    and nm: "\<And>x. name (store sh' x) = name (store sh x)"
    and pa: "parent (store sh' a) = None"
    and px: "\<And>x. x \<noteq> a \<Longrightarrow> parent (store sh' x) = parent (store sh x)" by auto
  from up_chain_fresh[OF assms(2)] have "\<forall>x \<in> set (cwd sh # ms). x \<noteq> a" by auto
  with px have "\<forall>x \<in> set (cwd sh # ms). parent (store sh' x) = parent (store sh x)"
    by blast
  from up_chain_cut[OF assms(2) pa this] have u: "up_chain (store sh') (cwd sh) (ms @ [a])" .
  from assms(3) have v: "list_all (\<lambda>m. valid_component (name (store sh' m))) (cwd sh # ms @ [a])"
    by (simp add: nm)
  from get_path_chain[OF u v] show ?thesis by (simp add: pwd_def c nm)
qed

theorem C10_pwd_after_ancestor_removed_witness:
  "rm example_shell (parse_path ''/a'') True
     = Some (Inr 1, state_after (rm example_shell (parse_path ''/a'') True))
   \<and> up_chain (store example_shell) (cwd example_shell) ([] @ 1 # [0])
   \<and> pwd example_shell = Some (Path ''/'' [''a'', ''b''])
   \<and> pwd (state_after (rm example_shell (parse_path ''/a'') True)) = Some (Path [] [''a'', ''b''])"
proof -
  have "map_option fst (rm example_shell (parse_path ''/a'') True) = Some (Inr 1)"
    by code_simp
  then have a: "rm example_shell (parse_path ''/a'') True
     = Some (Inr 1, state_after (rm example_shell (parse_path ''/a'') True))"
    by (cases "rm example_shell (parse_path ''/a'') True") (auto simp: state_after_def)
  have b: "up_chain (store example_shell) (cwd example_shell) ([] @ 1 # [0])"
    by (simp add: example_shell_def)
  have c: "list_all (\<lambda>m. valid_component (name (store example_shell m)))
             (cwd example_shell # [] @ [1])"
    by (simp add: example_shell_def valid_component_def)
  have d: "pwd example_shell = Some (Path ''/'' [''a'', ''b''])" by code_simp
  have e: "name (store example_shell 1) = ''a''" "name (store example_shell (cwd example_shell)) = ''b''"
    by (simp_all add: example_shell_def)
  from C10_pwd_after_ancestor_removed[OF a b c] a b d e show ?thesis by simp
qed

section \<open>Watchers\<close>

















end
